theory Spec2Isabelle
  imports Main "HOL-Library.Char_ord" "HOL-Library.List_Lexorder"
begin

section \<open>sdjson: a type-indexed registry of JSON encoder functions\<close>

text \<open>
  The module \<^verbatim>\<open>sdjson.py\<close> wraps Python's \<^verbatim>\<open>json\<close> package. It defines the
  single-dispatch function \<^verbatim>\<open>dump\<close>, whose registry doubles as the table of custom
  encoders, the function \<^verbatim>\<open>dumps\<close>, and the classes \<^verbatim>\<open>JSONEncoder\<close> (a subclass of
  \<^verbatim>\<open>json.JSONEncoder\<close> that overrides \<^verbatim>\<open>default\<close>, \<^verbatim>\<open>encode\<close> and \<^verbatim>\<open>iterencode\<close>)
  and \<^verbatim>\<open>_CustomEncoder\<close> (whose \<^verbatim>\<open>default\<close> consults the registry).

  The embedding follows the module function by function. What the module inherits from
  the standard library (\<^verbatim>\<open>json.JSONEncoder\<close>, \<^verbatim>\<open>json.dumps\<close>,
  \<^verbatim>\<open>functools.singledispatch\<close>) is modelled from the library's Python source, under
  names that start with \<open>json_\<close> or are explained where they are defined. The decorators
  \<^verbatim>\<open>sphinxify_json_docstring\<close>, \<^verbatim>\<open>append_docstring_from\<close> and \<^verbatim>\<open>is_documented_by\<close> set
  the docstring of the function or class they are applied to and return it as it is, so
  they have no counterpart here.
\<close>

subsection \<open>Python values and types\<close>

text \<open>
  The values the encoder meets: \<^verbatim>\<open>None\<close>, booleans, unbounded integers, strings,
  lists, dictionaries (association lists in insertion order; a well-formed dictionary
  has distinct keys) and instances of user classes. An instance carries its identity
  (what \<^verbatim>\<open>id(o)\<close> returns), the name of its class, the names of the user classes that
  follow it in its method resolution order, and its attributes. User classes here derive
  from \<^verbatim>\<open>object\<close> only, never from a type with a native JSON form. Floating-point
  numbers are left out of the model; a string is a list of 8-bit characters, read as the
  code points 0 to 255.
\<close>

datatype pytype = TObject | TNoneType | TBool | TInt | TStr | TList | TDict | TUser string

datatype pyval =
    PNone
  | PBool bool
  | PInt int
  | PStr string
  | PList "pyval list"
  | PDict "(pyval \<times> pyval) list"
  | PObj nat string "string list" "(string \<times> pyval) list"

text \<open>\<^verbatim>\<open>type(o).__mro__\<close>, and \<^verbatim>\<open>isinstance\<close> as membership in it.\<close>

fun mro :: "pyval \<Rightarrow> pytype list" where
  "mro PNone = [TNoneType, TObject]"
| "mro (PBool b) = [TBool, TInt, TObject]"
| "mro (PInt i) = [TInt, TObject]"
| "mro (PStr s) = [TStr, TObject]"
| "mro (PList xs) = [TList, TObject]"
| "mro (PDict kvs) = [TDict, TObject]"
| "mro (PObj i c ancs attrs) = TUser c # map TUser ancs @ [TObject]"

definition isinstance :: "pyval \<Rightarrow> pytype \<Rightarrow> bool" where
  "isinstance obj typ = (typ \<in> set (mro obj))"

text \<open>\<^verbatim>\<open>o.__class__.__name__\<close>.\<close>

fun class_name :: "pyval \<Rightarrow> string" where
  "class_name PNone = ''NoneType''"
| "class_name (PBool b) = ''bool''"
| "class_name (PInt i) = ''int''"
| "class_name (PStr s) = ''str''"
| "class_name (PList xs) = ''list''"
| "class_name (PDict kvs) = ''dict''"
| "class_name (PObj i c ancs attrs) = c"

subsection \<open>Exceptions\<close>

text \<open>
  An exception is its class and what its message reports. The \<^verbatim>\<open>TypeError\<close>s of the
  model: the \<^verbatim>\<open>json\<close> package's "Object of type C is not JSON serializable" and
  "keys must be str, int, float, bool or None, not C"; the interpreter's
  "f() got an unexpected keyword argument 'k'", "f() takes n positional arguments but m
  were given", "f() missing 1 required positional argument: 'a'", "'NoneType' object is
  not callable" and "'<' not supported between instances".
\<close>

datatype type_error =
    NotJSONSerializable string
  | KeysMustBeStr string
  | UnexpectedKeywordArgument string string
  | TakesPositionalArguments string nat nat
  | MissingPositionalArgument string string
  | NotCallable string
  | NotSupportedBetween string

datatype pyerror = TypeError type_error | ValueError string | AttributeError string | RecursionError

text \<open>The attribute lookup \<^verbatim>\<open>o.name\<close>; an instance without the attribute raises.\<close>

fun getattr :: "pyval \<Rightarrow> string \<Rightarrow> pyerror + pyval" where
  "getattr (PObj i c ancs attrs) name =
     (case map_of attrs name of Some v \<Rightarrow> Inr v | None \<Rightarrow> Inl (AttributeError name))"
| "getattr v name = Inl (AttributeError name)"

subsection \<open>Text of strings and integers\<close>

text \<open>
  \<^verbatim>\<open>int.__repr__\<close>, and the two string encoders of \<^verbatim>\<open>json.encoder\<close>:
  \<^verbatim>\<open>encode_basestring_ascii\<close> replaces the backslash, the double quote and every
  character outside the range from space to tilde; \<^verbatim>\<open>encode_basestring\<close> replaces the
  backslash, the double quote and the control characters below 0x20. The replacement is
  the short escape where \<^verbatim>\<open>ESCAPE_DCT\<close> has one, and \<^verbatim>\<open>\uXXXX\<close> otherwise.
\<close>

abbreviation dquote :: char where "dquote \<equiv> CHR 0x22"
abbreviation backslash :: char where "backslash \<equiv> CHR 0x5C"

definition digit_char :: "nat \<Rightarrow> char" where
  "digit_char n = ''0123456789abcdef'' ! (n mod 16)"

fun nat_repr :: "nat \<Rightarrow> string" where
  "nat_repr n = (if n < 10 then [digit_char n] else nat_repr (n div 10) @ [digit_char (n mod 10)])"

declare nat_repr.simps [simp del]

definition int_repr :: "int \<Rightarrow> string" where
  "int_repr i = (if i < 0 then CHR ''-'' # nat_repr (nat (- i)) else nat_repr (nat i))"

definition u_escape :: "nat \<Rightarrow> string" where
  "u_escape n = [backslash, CHR ''u'', digit_char (n div 4096), digit_char (n div 256),
                 digit_char (n div 16), digit_char n]"

definition ESCAPE_DCT :: "char \<Rightarrow> string option" where
  "ESCAPE_DCT c =
     (if c = backslash then Some [backslash, backslash]
      else if c = dquote then Some [backslash, dquote]
      else if c = CHR 0x08 then Some [backslash, CHR ''b'']
      else if c = CHR 0x0C then Some [backslash, CHR ''f'']
      else if c = CHR 0x0A then Some [backslash, CHR ''n'']
      else if c = CHR 0x0D then Some [backslash, CHR ''r'']
      else if c = CHR 0x09 then Some [backslash, CHR ''t'']
      else if (of_char c :: nat) < 0x20 then Some (u_escape (of_char c))
      else None)"

definition encode_basestring :: "string \<Rightarrow> string" where
  "encode_basestring s =
     dquote # concat (map (\<lambda>c. case ESCAPE_DCT c of Some r \<Rightarrow> r | None \<Rightarrow> [c]) s) @ [dquote]"

definition encode_basestring_ascii :: "string \<Rightarrow> string" where
  "encode_basestring_ascii s =
     dquote # concat (map (\<lambda>c.
        if c = backslash \<or> c = dquote \<or> (of_char c :: nat) < 0x20 \<or> 0x7E < (of_char c :: nat)
        then (case ESCAPE_DCT c of Some r \<Rightarrow> r | None \<Rightarrow> u_escape (of_char c))
        else [c]) s) @ [dquote]"

subsection \<open>The registry of \<^verbatim>\<open>functools.singledispatch\<close>\<close>

text \<open>
  \<^verbatim>\<open>@singledispatch\<close> on \<^verbatim>\<open>dump\<close> creates the dictionary \<^verbatim>\<open>dump.registry\<close>, from types
  to functions, with the single entry \<^verbatim>\<open>object\<close> for the decorated function itself. The
  registry is the only mutable state of the module. It is an association list in
  insertion order, since \<^verbatim>\<open>_CustomEncoder.default\<close> iterates over it. An encoder
  function takes one positional argument, as \<^verbatim>\<open>encode_myclass(obj)\<close> of the module's
  documentation does.
\<close>

type_synonym hook = "pyval \<Rightarrow> pyerror + pyval"

datatype impl = DumpFunction | Handler hook

type_synonym registry = "(pytype \<times> impl) list"

definition initial_registry :: registry where
  "initial_registry = [(TObject, DumpFunction)]"

text \<open>
  \<^verbatim>\<open>registry[cls] = func\<close>: a key that is present keeps its place and takes the new
  value, a new key goes to the end.
\<close>

fun dict_setitem :: "('k \<times> 'v) list \<Rightarrow> 'k \<Rightarrow> 'v \<Rightarrow> ('k \<times> 'v) list" where
  "dict_setitem [] k v = [(k, v)]"
| "dict_setitem ((k', v') # rest) k v =
     (if k' = k then (k, v) # rest else (k', v') # dict_setitem rest k v)"

text \<open>
  \<^verbatim>\<open>dump.register(cls)(func)\<close>, also written as the decorator \<^verbatim>\<open>@dump.register(cls)\<close>:
  \<^verbatim>\<open>register\<close> stores \<^verbatim>\<open>func\<close> under \<^verbatim>\<open>cls\<close> and returns \<^verbatim>\<open>func\<close>. The result is
  the returned function and the registry after the call.
\<close>

definition register :: "pytype \<Rightarrow> hook \<Rightarrow> registry \<Rightarrow> hook \<times> registry" where
  "register cls func reg = (func, dict_setitem reg cls (Handler func))"

text \<open>
  \<^verbatim>\<open>dump.dispatch(cls)\<close>: the entry of the first class of the method resolution order
  that has one.
\<close>

fun dispatch :: "registry \<Rightarrow> pytype list \<Rightarrow> impl option" where
  "dispatch reg [] = None"
| "dispatch reg (t # ts) = (case map_of reg t of Some f \<Rightarrow> Some f | None \<Rightarrow> dispatch reg ts)"

text \<open>
  A registry entry called with one positional argument, \<^verbatim>\<open>handler(o)\<close>. The function
  \<^verbatim>\<open>dump\<close> itself needs \<^verbatim>\<open>fp\<close> as well.
\<close>

fun call_handler :: "impl \<Rightarrow> pyval \<Rightarrow> pyerror + pyval" where
  "call_handler (Handler f) obj = f obj"
| "call_handler DumpFunction obj = Inl (TypeError (MissingPositionalArgument ''dump'' ''fp''))"

subsection \<open>Encoder instances\<close>

text \<open>
  The three encoder classes: \<^verbatim>\<open>json.JSONEncoder\<close> of the standard library, the module's
  subclass \<^verbatim>\<open>JSONEncoder\<close>, and \<^verbatim>\<open>_CustomEncoder\<close>, a subclass of the latter. An
  instance holds the attributes that \<^verbatim>\<open>json.JSONEncoder.__init__\<close> sets;
  \<open>default_attr\<close> is the instance attribute \<^verbatim>\<open>self.default\<close>, set only when the
  \<^verbatim>\<open>default\<close> argument is not \<^verbatim>\<open>None\<close>, and then it hides the method of the class.
\<close>

datatype encoder_cls = Json_JSONEncoder | JSONEncoder | CustomEncoder

datatype indent_arg = IndentInt int | IndentStr string

record encoder =
  enc_cls :: encoder_cls
  skipkeys :: bool
  ensure_ascii :: bool
  check_circular :: bool
  allow_nan :: bool
  sort_keys :: bool
  indent :: "indent_arg option"
  item_separator :: string
  key_separator :: string
  default_attr :: "hook option"

text \<open>
  The keyword arguments of \<^verbatim>\<open>dumps\<close>, \<^verbatim>\<open>json.dumps\<close> and the constructors; \<open>kw_kw\<close>
  holds the names of the keywords that \<^verbatim>\<open>**kw\<close> collects. \<open>default_kwargs\<close> are the
  values of the signature.
\<close>

record kwargs =
  kw_skipkeys :: bool
  kw_ensure_ascii :: bool
  kw_check_circular :: bool
  kw_allow_nan :: bool
  kw_cls :: "encoder_cls option"
  kw_indent :: "indent_arg option"
  kw_separators :: "(string \<times> string) option"
  kw_default :: "hook option"
  kw_sort_keys :: bool
  kw_kw :: "string list"

definition default_kwargs :: kwargs where
  "default_kwargs = \<lparr>kw_skipkeys = False, kw_ensure_ascii = True, kw_check_circular = True,
     kw_allow_nan = True, kw_cls = None, kw_indent = None, kw_separators = None,
     kw_default = None, kw_sort_keys = False, kw_kw = []\<rparr>"

text \<open>
  \<^verbatim>\<open>json.JSONEncoder.__init__\<close>, which the module's \<^verbatim>\<open>JSONEncoder.__init__\<close> calls with
  the arguments it was given: the class attributes \<^verbatim>\<open>item_separator = ', '\<close> and
  \<^verbatim>\<open>key_separator = ': '\<close> stay unless \<^verbatim>\<open>separators\<close> or \<^verbatim>\<open>indent\<close> is given. The
  constructor call \<^verbatim>\<open>cls(skipkeys=..., **kw)\<close> raises on a keyword the signature does not
  have.
\<close>

definition JSONEncoder_init :: "encoder_cls \<Rightarrow> kwargs \<Rightarrow> encoder" where
  "JSONEncoder_init c a =
     \<lparr>enc_cls = c, skipkeys = kw_skipkeys a, ensure_ascii = kw_ensure_ascii a,
      check_circular = kw_check_circular a, allow_nan = kw_allow_nan a,
      sort_keys = kw_sort_keys a, indent = kw_indent a,
      item_separator = (case kw_separators a of Some (i, k) \<Rightarrow> i
                        | None \<Rightarrow> if kw_indent a \<noteq> None then '','' else '', ''),
      key_separator = (case kw_separators a of Some (i, k) \<Rightarrow> k | None \<Rightarrow> '': ''),
      default_attr = kw_default a\<rparr>"

definition new_encoder :: "encoder_cls \<Rightarrow> kwargs \<Rightarrow> pyerror + encoder" where
  "new_encoder c a =
     (case kw_kw a of [] \<Rightarrow> Inr (JSONEncoder_init c a)
      | k # ks \<Rightarrow> Inl (TypeError (UnexpectedKeywordArgument ''__init__'' k)))"

subsection \<open>The walk of \<^verbatim>\<open>json.encoder._make_iterencode\<close>\<close>

text \<open>
  \<^verbatim>\<open>_make_iterencode\<close> closes over the parameters below and returns the generator
  \<^verbatim>\<open>_iterencode\<close>. The model returns the list of the chunks the generator yields, or the
  exception that ends it. \<open>arg_indent\<close> is \<^verbatim>\<open>_indent\<close> once an integer has been
  turned into that many spaces.
\<close>

record iterencode_args =
  arg_default :: hook
  arg_encoder :: "string \<Rightarrow> string"
  arg_indent :: "string option"
  arg_key_separator :: string
  arg_item_separator :: string
  arg_sort_keys :: bool
  arg_skipkeys :: bool

definition str_mul :: "string \<Rightarrow> nat \<Rightarrow> string" where
  "str_mul s n = concat (replicate n s)"

definition newline_indent :: "string option \<Rightarrow> nat \<Rightarrow> string option" where
  "newline_indent ind lvl = map_option (\<lambda>s. CHR 0x0A # str_mul s lvl) ind"

text \<open>
  The branches for \<^verbatim>\<open>str\<close>, \<^verbatim>\<open>None\<close>, \<^verbatim>\<open>True\<close>, \<^verbatim>\<open>False\<close> and \<^verbatim>\<open>int\<close>, which yield one
  chunk, and the conversion of a dictionary key. An element of a list or a value of a
  dictionary is either such an atom or yields the chunks of a nested walk.
\<close>

fun atom_text :: "(string \<Rightarrow> string) \<Rightarrow> pyval \<Rightarrow> string option" where
  "atom_text enc (PStr s) = Some (enc s)"
| "atom_text enc PNone = Some ''null''"
| "atom_text enc (PBool b) = Some (if b then ''true'' else ''false'')"
| "atom_text enc (PInt i) = Some (int_repr i)"
| "atom_text enc v = None"

fun key_text :: "pyval \<Rightarrow> string option" where
  "key_text (PStr s) = Some s"
| "key_text (PBool b) = Some (if b then ''true'' else ''false'')"
| "key_text PNone = Some ''null''"
| "key_text (PInt i) = Some (int_repr i)"
| "key_text v = None"

datatype item = Atom string | Chunks "pyerror + string list"

text \<open>
  The loop of \<^verbatim>\<open>_iterencode_list\<close>: \<^verbatim>\<open>buf\<close> is the opening bracket before the first
  element and the separator before the others; an atom is yielded together with
  \<^verbatim>\<open>buf\<close>, a nested value after it.
\<close>

fun list_loop :: "string \<Rightarrow> string \<Rightarrow> item list \<Rightarrow> pyerror + string list" where
  "list_loop buf separator [] = Inr []"
| "list_loop buf separator (Atom t # rest) =
     (case list_loop separator separator rest of
        Inl e \<Rightarrow> Inl e
      | Inr cs \<Rightarrow> Inr ((buf @ t) # cs))"
| "list_loop buf separator (Chunks r # rest) =
     (case r of
        Inl e \<Rightarrow> Inl e
      | Inr chunks \<Rightarrow>
          (case list_loop separator separator rest of
             Inl e \<Rightarrow> Inl e
           | Inr cs \<Rightarrow> Inr (buf # chunks @ cs)))"

text \<open>
  \<^verbatim>\<open>sorted(dct.items())\<close>. Strings compare with strings (by code points) and integers
  and booleans with each other; any other pair of keys raises. A comparison sort of two
  or more items compares across any two groups of keys, so it raises exactly when the
  keys are neither all strings nor all integers or booleans.
\<close>

fun is_str :: "pyval \<Rightarrow> bool" where
  "is_str (PStr s) = True"
| "is_str v = False"

fun is_int :: "pyval \<Rightarrow> bool" where
  "is_int (PInt i) = True"
| "is_int (PBool b) = True"
| "is_int v = False"

fun str_value :: "pyval \<Rightarrow> string" where
  "str_value (PStr s) = s"
| "str_value v = []"

fun int_value :: "pyval \<Rightarrow> int" where
  "int_value (PInt i) = i"
| "int_value (PBool b) = (if b then 1 else 0)"
| "int_value v = 0"

definition sorted_items :: "(pyval \<times> 'a) list \<Rightarrow> pyerror + (pyval \<times> 'a) list" where
  "sorted_items items =
     (if length items \<le> 1 then Inr items
      else if list_all (\<lambda>(k, v). is_str k) items then Inr (sort_key (\<lambda>(k, v). str_value k) items)
      else if list_all (\<lambda>(k, v). is_int k) items then Inr (sort_key (\<lambda>(k, v). int_value k) items)
      else Inl (TypeError (NotSupportedBetween ''<'')))"

text \<open>
  The loop of \<^verbatim>\<open>_iterencode_dict\<close>: a key that is not a string, a boolean, \<^verbatim>\<open>None\<close> or
  an integer is skipped under \<^verbatim>\<open>skipkeys\<close> and raises otherwise; \<^verbatim>\<open>first\<close> tells
  whether a separator is due.
\<close>

fun dict_loop :: "iterencode_args \<Rightarrow> bool \<Rightarrow> string \<Rightarrow> (pyval \<times> item) list \<Rightarrow> pyerror + string list" where
  "dict_loop p first separator [] = Inr []"
| "dict_loop p first separator ((key, value) # rest) =
     (case key_text key of
        None \<Rightarrow>
          if arg_skipkeys p then dict_loop p first separator rest
          else Inl (TypeError (KeysMustBeStr (class_name key)))
      | Some k \<Rightarrow>
          (case (case value of Atom t \<Rightarrow> Inr [t] | Chunks r \<Rightarrow> r) of
             Inl e \<Rightarrow> Inl e
           | Inr chunks \<Rightarrow>
               (case dict_loop p False separator rest of
                  Inl e \<Rightarrow> Inl e
                | Inr cs \<Rightarrow>
                    Inr ((if first then [] else [separator])
                         @ [arg_encoder p k, arg_key_separator p] @ chunks @ cs))))"

text \<open>
  \<^verbatim>\<open>_iterencode\<close>, with \<^verbatim>\<open>_iterencode_list\<close> and \<^verbatim>\<open>_iterencode_dict\<close> as its list and
  dictionary branches. \<open>markers\<close> is \<^verbatim>\<open>None\<close> without the circular check, and otherwise
  holds the instances being converted on the path from the root (the walk removes a
  marker when it leaves the instance). The code keys the markers by \<^verbatim>\<open>id(o)\<close>; the
  objects that are alive during one call have distinct ids, so an instance is a marked
  object exactly when it is equal, id included, to one of the marked instances, and that
  is the test of the model. Lists and dictionaries are finite trees here, so their own
  markers can never be met again and are not kept. \<open>lvl\<close> is
  \<^verbatim>\<open>_current_indent_level\<close>.

  A value that is none of the native kinds is replaced by \<^verbatim>\<open>_default(o)\<close> and the walk
  goes on with the replacement. Nothing bounds how often that happens, so the walk takes a
  budget \<open>depth\<close> of nested replacements and raises \<^verbatim>\<open>RecursionError\<close> beyond it, as the
  interpreter does at its recursion limit. The nesting of lists and dictionaries, which
  the size of the value bounds, takes nothing from the budget: the interpreter's limit on
  deeply nested containers is not modelled.
\<close>

fun iterencode_value :: "iterencode_args \<Rightarrow> nat \<Rightarrow> pyval list option \<Rightarrow> nat \<Rightarrow> pyval \<Rightarrow> pyerror + string list" where
  "iterencode_value p depth markers lvl (PStr s) = Inr [arg_encoder p s]"
| "iterencode_value p depth markers lvl PNone = Inr [''null'']"
| "iterencode_value p depth markers lvl (PBool b) = Inr [if b then ''true'' else ''false'']"
| "iterencode_value p depth markers lvl (PInt i) = Inr [int_repr i]"
| "iterencode_value p depth markers lvl (PList lst) =
     (if lst = [] then Inr [''[]'']
      else
        let lvl' = (if arg_indent p = None then lvl else Suc lvl);
            nl = (case newline_indent (arg_indent p) lvl' of None \<Rightarrow> [] | Some s \<Rightarrow> s);
            items = map (\<lambda>value. case atom_text (arg_encoder p) value of
                                     Some t \<Rightarrow> Atom t
                                   | None \<Rightarrow> Chunks (iterencode_value p depth markers lvl' value)) lst
        in case list_loop (''['' @ nl) (arg_item_separator p @ nl) items of
             Inl e \<Rightarrow> Inl e
           | Inr cs \<Rightarrow>
               Inr (cs @ (case newline_indent (arg_indent p) lvl of None \<Rightarrow> [] | Some s \<Rightarrow> [s])
                       @ ['']'']))"
| "iterencode_value p depth markers lvl (PDict dct) =
     (if dct = [] then Inr [''{}'']
      else
        let lvl' = (if arg_indent p = None then lvl else Suc lvl);
            nl = (case newline_indent (arg_indent p) lvl' of None \<Rightarrow> [] | Some s \<Rightarrow> s);
            walked = map (\<lambda>(key, value). (key, case atom_text (arg_encoder p) value of
                                     Some t \<Rightarrow> Atom t
                                   | None \<Rightarrow> Chunks (iterencode_value p depth markers lvl' value))) dct
        in case (if arg_sort_keys p then sorted_items walked else Inr walked) of
             Inl e \<Rightarrow> Inl e
           | Inr items \<Rightarrow>
               (case dict_loop p True (arg_item_separator p @ nl) items of
                  Inl e \<Rightarrow> Inl e
                | Inr cs \<Rightarrow>
                    Inr (''{'' # (case newline_indent (arg_indent p) lvl' of None \<Rightarrow> [] | Some s \<Rightarrow> [s])
                         @ cs
                         @ (case newline_indent (arg_indent p) lvl of None \<Rightarrow> [] | Some s \<Rightarrow> [s])
                         @ [''}''])))"
| "iterencode_value p depth markers lvl (PObj i c ancs attrs) =
     (if (case markers of None \<Rightarrow> False | Some ms \<Rightarrow> PObj i c ancs attrs \<in> set ms)
      then Inl (ValueError ''Circular reference detected'')
      else
        case arg_default p (PObj i c ancs attrs) of
          Inl e \<Rightarrow> Inl e
        | Inr v \<Rightarrow>
            (case depth of
               0 \<Rightarrow> Inl RecursionError
             | Suc d \<Rightarrow>
                 iterencode_value p d (map_option (\<lambda>ms. PObj i c ancs attrs # ms) markers) lvl v))"

subsection \<open>The methods of the encoder classes\<close>

text \<open>
  \<^verbatim>\<open>json.JSONEncoder.default\<close> raises; the module's \<^verbatim>\<open>JSONEncoder.default\<close> returns
  \<^verbatim>\<open>super().default(o)\<close>.
\<close>

definition json_JSONEncoder_default :: hook where
  "json_JSONEncoder_default obj = Inl (TypeError (NotJSONSerializable (class_name obj)))"

definition JSONEncoder_default :: hook where
  "JSONEncoder_default obj = json_JSONEncoder_default obj"

text \<open>
  \<^verbatim>\<open>_CustomEncoder.default\<close>: the loop over \<^verbatim>\<open>dump.registry.items()\<close>, read when the method
  is called, returns \<^verbatim>\<open>handler(o)\<close> at the first entry with
  \<^verbatim>\<open>isinstance(o, type_) and type_ is not object\<close>; after the loop comes
  \<^verbatim>\<open>super().default(o)\<close>.
\<close>

fun CustomEncoder_default :: "registry \<Rightarrow> hook" where
  "CustomEncoder_default [] obj = JSONEncoder_default obj"
| "CustomEncoder_default ((typ, handler) # rest) obj =
     (if isinstance obj typ \<and> typ \<noteq> TObject then call_handler handler obj
      else CustomEncoder_default rest obj)"

text \<open>
  The attribute \<^verbatim>\<open>self.default\<close>: the instance attribute if \<^verbatim>\<open>__init__\<close> has set one,
  else the method of the instance's class.
\<close>

definition self_default :: "registry \<Rightarrow> encoder \<Rightarrow> hook" where
  "self_default reg self =
     (case default_attr self of
        Some f \<Rightarrow> f
      | None \<Rightarrow>
          (case enc_cls self of
             Json_JSONEncoder \<Rightarrow> json_JSONEncoder_default
           | JSONEncoder \<Rightarrow> JSONEncoder_default
           | CustomEncoder \<Rightarrow> CustomEncoder_default reg))"

text \<open>
  \<^verbatim>\<open>json.JSONEncoder.iterencode(self, o, _one_shot=False)\<close> sets up the markers and the
  string encoder and runs the walk from indent level 0. \<^verbatim>\<open>_one_shot\<close> only chooses
  between the C and the Python implementation of the walk. In the model the argument
  \<open>one_shot\<close> is \<open>None\<close> when the caller does not pass the keyword.
\<close>

definition indent_str :: "indent_arg \<Rightarrow> string" where
  "indent_str i = (case i of IndentStr s \<Rightarrow> s | IndentInt n \<Rightarrow> replicate (nat n) CHR '' '')"

definition json_JSONEncoder_iterencode ::
    "registry \<Rightarrow> nat \<Rightarrow> encoder \<Rightarrow> pyval \<Rightarrow> bool option \<Rightarrow> pyerror + string list" where
  "json_JSONEncoder_iterencode reg depth self obj one_shot =
     iterencode_value
       \<lparr>arg_default = self_default reg self,
        arg_encoder = (if ensure_ascii self then encode_basestring_ascii else encode_basestring),
        arg_indent = map_option indent_str (indent self),
        arg_key_separator = key_separator self,
        arg_item_separator = item_separator self,
        arg_sort_keys = sort_keys self,
        arg_skipkeys = skipkeys self\<rparr>
       depth (if check_circular self then Some [] else None) 0 obj"

text \<open>
  The module's override is \<^verbatim>\<open>def iterencode(self, o): return super().iterencode(o)\<close>. It
  has no parameter \<^verbatim>\<open>_one_shot\<close>, so a call that passes that keyword raises
  \<^verbatim>\<open>TypeError\<close> before the body runs. \<^verbatim>\<open>_CustomEncoder\<close> inherits the override.
\<close>

definition JSONEncoder_iterencode ::
    "registry \<Rightarrow> nat \<Rightarrow> encoder \<Rightarrow> pyval \<Rightarrow> bool option \<Rightarrow> pyerror + string list" where
  "JSONEncoder_iterencode reg depth self obj one_shot =
     (case one_shot of
        Some b \<Rightarrow> Inl (TypeError (UnexpectedKeywordArgument ''iterencode'' ''_one_shot''))
      | None \<Rightarrow> json_JSONEncoder_iterencode reg depth self obj None)"

definition self_iterencode ::
    "registry \<Rightarrow> nat \<Rightarrow> encoder \<Rightarrow> pyval \<Rightarrow> bool option \<Rightarrow> pyerror + string list" where
  "self_iterencode reg depth self obj one_shot =
     (case enc_cls self of
        Json_JSONEncoder \<Rightarrow> json_JSONEncoder_iterencode reg depth self obj one_shot
      | JSONEncoder \<Rightarrow> JSONEncoder_iterencode reg depth self obj one_shot
      | CustomEncoder \<Rightarrow> JSONEncoder_iterencode reg depth self obj one_shot)"

text \<open>
  \<^verbatim>\<open>json.JSONEncoder.encode(self, o)\<close> returns the encoded string at once when \<^verbatim>\<open>o\<close>
  is a string, and otherwise joins the chunks of
  \<^verbatim>\<open>self.iterencode(o, _one_shot=True)\<close>, a call that is bound by the class of
  \<^verbatim>\<open>self\<close>. The module's \<^verbatim>\<open>JSONEncoder.encode\<close> returns \<^verbatim>\<open>super().encode(o)\<close>.
\<close>

definition json_JSONEncoder_encode :: "registry \<Rightarrow> nat \<Rightarrow> encoder \<Rightarrow> pyval \<Rightarrow> pyerror + string" where
  "json_JSONEncoder_encode reg depth self obj =
     (case obj of
        PStr s \<Rightarrow> Inr (if ensure_ascii self then encode_basestring_ascii s else encode_basestring s)
      | _ \<Rightarrow>
          (case self_iterencode reg depth self obj (Some True) of
             Inl e \<Rightarrow> Inl e
           | Inr chunks \<Rightarrow> Inr (concat chunks)))"

definition JSONEncoder_encode :: "registry \<Rightarrow> nat \<Rightarrow> encoder \<Rightarrow> pyval \<Rightarrow> pyerror + string" where
  "JSONEncoder_encode reg depth self obj = json_JSONEncoder_encode reg depth self obj"

definition self_encode :: "registry \<Rightarrow> nat \<Rightarrow> encoder \<Rightarrow> pyval \<Rightarrow> pyerror + string" where
  "self_encode reg depth self obj =
     (case enc_cls self of
        Json_JSONEncoder \<Rightarrow> json_JSONEncoder_encode reg depth self obj
      | JSONEncoder \<Rightarrow> JSONEncoder_encode reg depth self obj
      | CustomEncoder \<Rightarrow> JSONEncoder_encode reg depth self obj)"

subsection \<open>The functions of the module\<close>

text \<open>
  The module-level \<^verbatim>\<open>_default_encoder\<close> is built once, by
  \<^verbatim>\<open>_CustomEncoder(skipkeys=False, ensure_ascii=True, check_circular=True,
  allow_nan=True, indent=None, separators=None, default=None)\<close>, and never assigned
  again.
\<close>

definition default_encoder :: encoder where
  "default_encoder =
     JSONEncoder_init CustomEncoder
       (default_kwargs\<lparr>kw_skipkeys := False, kw_ensure_ascii := True, kw_check_circular := True,
          kw_allow_nan := True, kw_indent := None, kw_separators := None, kw_default := None\<rparr>)"

text \<open>
  \<^verbatim>\<open>dumps\<close>: with every argument at its default, \<^verbatim>\<open>_default_encoder.encode(obj)\<close>;
  otherwise a new instance of \<^verbatim>\<open>cls\<close>, or of \<^verbatim>\<open>_CustomEncoder\<close> when \<^verbatim>\<open>cls\<close> is
  \<^verbatim>\<open>None\<close>, encodes \<^verbatim>\<open>obj\<close>.
\<close>

definition all_defaults :: "kwargs \<Rightarrow> bool" where
  "all_defaults a =
     (\<not> kw_skipkeys a \<and> kw_ensure_ascii a \<and> kw_check_circular a \<and> kw_allow_nan a
      \<and> kw_cls a = None \<and> kw_indent a = None \<and> kw_separators a = None \<and> kw_default a = None
      \<and> \<not> kw_sort_keys a \<and> kw_kw a = [])"

definition dumps_fast_path :: "registry \<Rightarrow> nat \<Rightarrow> pyval \<Rightarrow> pyerror + string" where
  "dumps_fast_path reg depth obj = self_encode reg depth default_encoder obj"

definition dumps_slow_path :: "registry \<Rightarrow> nat \<Rightarrow> pyval \<Rightarrow> kwargs \<Rightarrow> pyerror + string" where
  "dumps_slow_path reg depth obj a =
     (let cls = (case kw_cls a of None \<Rightarrow> CustomEncoder | Some c \<Rightarrow> c)
      in case new_encoder cls a of
           Inl e \<Rightarrow> Inl e
         | Inr enc \<Rightarrow> self_encode reg depth enc obj)"

definition dumps :: "registry \<Rightarrow> nat \<Rightarrow> pyval \<Rightarrow> kwargs \<Rightarrow> pyerror + string" where
  "dumps reg depth obj a =
     (if all_defaults a then dumps_fast_path reg depth obj else dumps_slow_path reg depth obj a)"

text \<open>
  \<^verbatim>\<open>json.dumps\<close> of the standard library has the same shape, with \<^verbatim>\<open>json.JSONEncoder\<close>
  as the class of its cached encoder and as the class used when \<^verbatim>\<open>cls\<close> is \<^verbatim>\<open>None\<close>.
\<close>

definition json_dumps :: "registry \<Rightarrow> nat \<Rightarrow> pyval \<Rightarrow> kwargs \<Rightarrow> pyerror + string" where
  "json_dumps reg depth obj a =
     (if all_defaults a
      then self_encode reg depth (JSONEncoder_init Json_JSONEncoder default_kwargs) obj
      else
        let cls = (case kw_cls a of None \<Rightarrow> Json_JSONEncoder | Some c \<Rightarrow> c)
        in case new_encoder cls a of
             Inl e \<Rightarrow> Inl e
           | Inr enc \<Rightarrow> self_encode reg depth enc obj)"

text \<open>
  \<^verbatim>\<open>dump(obj, fp, **kwargs)\<close>. The body of the decorated function calls
  \<^verbatim>\<open>json.dumps(obj, **kwargs)\<close> and writes the result to \<^verbatim>\<open>fp\<close> character by character;
  \<open>fp\<close> is the list of the chunks written so far and the result is that list after the
  call. The function is wrapped by \<^verbatim>\<open>singledispatch\<close>: a call is routed by the class of
  \<^verbatim>\<open>obj\<close>, and a registered encoder function is then called as
  \<^verbatim>\<open>handler(obj, fp, **kwargs)\<close>. \<open>given\<close> lists the names of the keywords written in the
  call, in their order, and \<open>a\<close> holds their values and the defaults of the others. An
  encoder function has one parameter, whose name is none of the keywords: the interpreter
  rejects the first keyword if there is one, and the second positional argument
  otherwise.
\<close>

definition dump_function :: "registry \<Rightarrow> nat \<Rightarrow> pyval \<Rightarrow> string list \<Rightarrow> kwargs \<Rightarrow> pyerror + string list" where
  "dump_function reg depth obj fp a =
     (case json_dumps reg depth obj a of
        Inl e \<Rightarrow> Inl e
      | Inr iterable \<Rightarrow> Inr (fp @ map (\<lambda>chunk. [chunk]) iterable))"

definition dump ::
    "registry \<Rightarrow> nat \<Rightarrow> pyval \<Rightarrow> string list \<Rightarrow> string list \<Rightarrow> kwargs \<Rightarrow> pyerror + string list" where
  "dump reg depth obj fp given a =
     (case dispatch reg (mro obj) of
        None \<Rightarrow> Inl (TypeError (NotCallable ''NoneType''))
      | Some DumpFunction \<Rightarrow> dump_function reg depth obj fp a
      | Some (Handler f) \<Rightarrow>
          (case given of
             [] \<Rightarrow> Inl (TypeError (TakesPositionalArguments ''handler'' 1 2))
           | k # ks \<Rightarrow> Inl (TypeError (UnexpectedKeywordArgument ''handler'' k))))"

text \<open>
  \<^verbatim>\<open>loads\<close> returns \<^verbatim>\<open>json.loads(*args, **kwargs)\<close>; the parser of the standard library is
  a parameter.
\<close>

definition loads :: "(string \<Rightarrow> pyerror + pyval) \<Rightarrow> string \<Rightarrow> pyerror + pyval" where
  "loads json_loads s = json_loads s"

subsection \<open>Example classes and encoder functions\<close>

text \<open>
  A class \<^verbatim>\<open>Point\<close> with attributes \<^verbatim>\<open>x\<close> and \<^verbatim>\<open>y\<close> and the encoder function
  \<^verbatim>\<open>encode_point(p) = {"x": p.x, "y": p.y}\<close>; a class \<^verbatim>\<open>Point3D\<close> that derives from it;
  a class \<^verbatim>\<open>Blob\<close> without attributes; and encoder functions that return a fixed string.
\<close>

definition Point :: "nat \<Rightarrow> int \<Rightarrow> int \<Rightarrow> pyval" where
  "Point i x y = PObj i ''Point'' [] [(''x'', PInt x), (''y'', PInt y)]"

definition Point3D :: "nat \<Rightarrow> int \<Rightarrow> int \<Rightarrow> int \<Rightarrow> pyval" where
  "Point3D i x y z = PObj i ''Point3D'' [''Point''] [(''x'', PInt x), (''y'', PInt y), (''z'', PInt z)]"

definition Blob :: "nat \<Rightarrow> pyval" where
  "Blob i = PObj i ''Blob'' [] []"

definition encode_point :: hook where
  "encode_point p =
     (case getattr p ''x'' of
        Inl e \<Rightarrow> Inl e
      | Inr x \<Rightarrow>
          (case getattr p ''y'' of
             Inl e \<Rightarrow> Inl e
           | Inr y \<Rightarrow> Inr (PDict [(PStr ''x'', x), (PStr ''y'', y)])))"

definition encode_as :: "string \<Rightarrow> hook" where
  "encode_as s obj = Inr (PStr s)"

subsection \<open>Notions used in the statements\<close>

text \<open>
  The test of the loop in \<^verbatim>\<open>_CustomEncoder.default\<close>, as a predicate on registry
  entries.
\<close>

definition entry_matches :: "pyval \<Rightarrow> pytype \<times> impl \<Rightarrow> bool" where
  "entry_matches obj entry = (isinstance obj (fst entry) \<and> fst entry \<noteq> TObject)"

text \<open>
  \<^verbatim>\<open>loads(dumps(obj))\<close> with default options: the text that \<^verbatim>\<open>dumps\<close> returns is given to
  the parser, and an exception of \<^verbatim>\<open>dumps\<close> ends the evaluation.
\<close>

definition round_trip :: "(string \<Rightarrow> pyerror + pyval) \<Rightarrow> registry \<Rightarrow> nat \<Rightarrow> pyval \<Rightarrow> pyerror + pyval" where
  "round_trip json_loads reg depth obj =
     (case dumps reg depth obj default_kwargs of
        Inl e \<Rightarrow> Inl e
      | Inr s \<Rightarrow> loads json_loads s)"

section \<open>Properties of the registry\<close>

lemma CustomEncoder_default_find:
  "CustomEncoder_default reg obj =
     (case find (entry_matches obj) reg of
        Some (typ, handler) \<Rightarrow> call_handler handler obj
      | None \<Rightarrow> JSONEncoder_default obj)"
  by (induction reg) (auto simp: entry_matches_def)

lemma dict_setitem_new: "k \<notin> fst ` set al \<Longrightarrow> dict_setitem al k v = al @ [(k, v)]"
  by (induction al) auto

lemma dict_setitem_keys:
  "map fst (dict_setitem al k v) = (if k \<in> fst ` set al then map fst al else map fst al @ [k])"
  by (induction al) force+

lemma map_of_dict_setitem: "map_of (dict_setitem al k v) = (map_of al)(k \<mapsto> v)"
  by (induction al) (auto simp: fun_eq_iff)

lemma dict_setitem_twice: "dict_setitem (dict_setitem al k v) k w = dict_setitem al k w"
  by (induction al) auto

lemma find_append_None: "find P xs = None \<Longrightarrow> find P (xs @ ys) = find P ys"
  by (induction xs) (auto split: if_splits)

text \<open>
  Claim C3. The lookup of \<^verbatim>\<open>_CustomEncoder.default\<close> goes through the registry in
  insertion order and calls the handler of the first entry whose type the value is an
  instance of, the entry of \<^verbatim>\<open>object\<close> never counting; without such an entry it ends
  in the native error. Hence, when two types \<open>A\<close> and \<open>B\<close> that the value is an instance
  of are registered in that order into a registry where neither was present and nothing
  matched, the handler of \<open>A\<close>, registered first, is the one called, also when \<open>B\<close> is the
  more specific type; and a value of a subtype of the single registered type \<open>A\<close> is given
  to the handler of \<open>A\<close>.
\<close>

theorem registry_lookup_first_match:
  "CustomEncoder_default reg obj =
     (case find (entry_matches obj) reg of
        Some (typ, handler) \<Rightarrow> call_handler handler obj
      | None \<Rightarrow> JSONEncoder_default obj)
   \<and> (isinstance obj A \<and> isinstance obj B \<and> A \<noteq> TObject \<and> B \<noteq> TObject \<and> A \<noteq> B
        \<and> A \<notin> fst ` set reg \<and> B \<notin> fst ` set reg \<and> find (entry_matches obj) reg = None
      \<longrightarrow> CustomEncoder_default (snd (register B g (snd (register A f reg)))) obj = f obj
          \<and> CustomEncoder_default (snd (register A f reg)) obj = f obj)"
proof (intro conjI impI)
  show "CustomEncoder_default reg obj =
     (case find (entry_matches obj) reg of
        Some (typ, handler) \<Rightarrow> call_handler handler obj
      | None \<Rightarrow> JSONEncoder_default obj)"
    by (rule CustomEncoder_default_find)
next
  assume h: "isinstance obj A \<and> isinstance obj B \<and> A \<noteq> TObject \<and> B \<noteq> TObject \<and> A \<noteq> B
        \<and> A \<notin> fst ` set reg \<and> B \<notin> fst ` set reg \<and> find (entry_matches obj) reg = None"
  then have r1: "snd (register A f reg) = reg @ [(A, Handler f)]"
    by (simp add: register_def dict_setitem_new)
  from h have "B \<notin> fst ` set (reg @ [(A, Handler f)])" by auto
  then have r2: "snd (register B g (snd (register A f reg))) = (reg @ [(A, Handler f)]) @ [(B, Handler g)]"
    unfolding r1 by (simp add: register_def dict_setitem_new)
  from h have m: "entry_matches obj (A, Handler f)" by (simp add: entry_matches_def)
  show "CustomEncoder_default (snd (register B g (snd (register A f reg)))) obj = f obj"
    unfolding r2 CustomEncoder_default_find using h m by (simp add: find_append_None)
  show "CustomEncoder_default (snd (register A f reg)) obj = f obj"
    unfolding r1 CustomEncoder_default_find using h m by (simp add: find_append_None)
qed

theorem registry_lookup_first_match_witness:
  "CustomEncoder_default
      (snd (register (TUser ''Point3D'') (encode_as ''specific'')
         (snd (register (TUser ''Point'') (encode_as ''first'') initial_registry))))
      (Point3D 7 1 2 3) = Inr (PStr ''first'')"
  using registry_lookup_first_match [of initial_registry "Point3D 7 1 2 3" "TUser ''Point''" "TUser ''Point3D''"
      "encode_as ''specific''" "encode_as ''first''"]
  by (simp add: initial_registry_def Point3D_def isinstance_def entry_matches_def encode_as_def)

text \<open>
  Claim C9. \<^verbatim>\<open>register(T)\<close> applied to an encoder function returns that function, and the
  registry after the call maps \<open>T\<close> to it: a type that was present keeps its place among
  the keys, a new type is added after them.
\<close>

theorem register_returns_function:
  "fst (register cls func reg) = func
   \<and> map_of (snd (register cls func reg)) cls = Some (Handler func)
   \<and> map fst (snd (register cls func reg))
       = (if cls \<in> fst ` set reg then map fst reg else map fst reg @ [cls])"
  by (simp add: register_def map_of_dict_setitem dict_setitem_keys)

theorem register_returns_function_witness:
  "fst (register (TUser ''Point'') encode_point initial_registry) = encode_point
   \<and> map_of (snd (register (TUser ''Point'') encode_point initial_registry)) (TUser ''Point'')
       = Some (Handler encode_point)
   \<and> map fst (snd (register (TUser ''Point'') encode_point initial_registry))
       = [TObject, TUser ''Point'']"
  using register_returns_function [of "TUser ''Point''" encode_point initial_registry]
  by (simp add: initial_registry_def)

lemma dict_setitem_split:
  "dict_setitem al k v = takeWhile (\<lambda>e. fst e \<noteq> k) al @ (k, v) # tl (dropWhile (\<lambda>e. fst e \<noteq> k) al)"
  by (induction al) auto

text \<open>
  Claim C7, as amended. Registering \<open>f\<close> and then \<open>g\<close> for the same type \<open>T\<close> always
  returns (the second call returns \<open>g\<close>) and leaves the registry that registering \<open>g\<close>
  alone would have left, with \<open>g\<close> as the entry of \<open>T\<close>: nothing of \<open>f\<close> remains. The
  lookup of \<^verbatim>\<open>_CustomEncoder.default\<close> then gives a value that is an instance of \<open>T\<close> to
  \<open>g\<close>, provided that \<open>T\<close> is not \<^verbatim>\<open>object\<close> and that no entry before the place of \<open>T\<close>
  in the registry matches the value.
\<close>

theorem reregistration_replaces_entry:
  "snd (register T g (snd (register T f reg))) = snd (register T g reg)
   \<and> fst (register T g (snd (register T f reg))) = g
   \<and> map_of (snd (register T g (snd (register T f reg)))) T = Some (Handler g)
   \<and> (isinstance obj T \<and> T \<noteq> TObject
        \<and> find (entry_matches obj) (takeWhile (\<lambda>e. fst e \<noteq> T) reg) = None
      \<longrightarrow> CustomEncoder_default (snd (register T g (snd (register T f reg)))) obj = g obj)"
proof (intro conjI impI)
  show r: "snd (register T g (snd (register T f reg))) = snd (register T g reg)"
    by (simp add: register_def dict_setitem_twice)
  show "fst (register T g (snd (register T f reg))) = g"
    by (simp add: register_def)
  show "map_of (snd (register T g (snd (register T f reg)))) T = Some (Handler g)"
    by (simp add: register_def map_of_dict_setitem)
  assume h: "isinstance obj T \<and> T \<noteq> TObject
        \<and> find (entry_matches obj) (takeWhile (\<lambda>e. fst e \<noteq> T) reg) = None"
  then have m: "entry_matches obj (T, Handler g)" by (simp add: entry_matches_def)
  have "find (entry_matches obj) (snd (register T g reg)) = Some (T, Handler g)"
    using h m by (simp add: register_def dict_setitem_split [of reg T] find_append_None)
  then show "CustomEncoder_default (snd (register T g (snd (register T f reg)))) obj = g obj"
    unfolding r CustomEncoder_default_find by simp
qed

theorem reregistration_replaces_entry_witness:
  "CustomEncoder_default
      (snd (register (TUser ''Point'') (encode_as ''new'')
         (snd (register (TUser ''Point'') (encode_as ''old'') initial_registry))))
      (Point 7 1 2) = Inr (PStr ''new'')
   \<and> snd (register (TUser ''Point'') (encode_as ''new'')
         (snd (register (TUser ''Point'') (encode_as ''old'') initial_registry)))
       = [(TObject, DumpFunction), (TUser ''Point'', Handler (encode_as ''new''))]"
  using reregistration_replaces_entry [of "TUser ''Point''" "encode_as ''new''" "encode_as ''old''"
      initial_registry "Point 7 1 2"]
  by (simp add: initial_registry_def Point_def isinstance_def entry_matches_def encode_as_def
      register_def)

text \<open>
  Claim C7 as stated, without the proviso, fails: \<^verbatim>\<open>Point\<close> is registered first, then its subclass
  \<^verbatim>\<open>Point3D\<close> twice. The lookup for an instance of \<^verbatim>\<open>Point3D\<close> stops at the entry of
  \<^verbatim>\<open>Point\<close>, so the encoding uses neither the old nor the new encoder of \<^verbatim>\<open>Point3D\<close>.
\<close>

theorem reregistration_counterexample:
  "CustomEncoder_default
      (snd (register (TUser ''Point3D'') (encode_as ''new'')
         (snd (register (TUser ''Point3D'') (encode_as ''old'')
            (snd (register (TUser ''Point'') (encode_as ''base'') initial_registry))))))
      (Point3D 7 1 2 3) = Inr (PStr ''base'')
   \<and> encode_as ''new'' (Point3D 7 1 2 3) = Inr (PStr ''new'')
   \<and> self_iterencode
      (snd (register (TUser ''Point3D'') (encode_as ''new'')
         (snd (register (TUser ''Point3D'') (encode_as ''old'')
            (snd (register (TUser ''Point'') (encode_as ''base'') initial_registry))))))
      1 default_encoder (Point3D 7 1 2 3) None = Inr [[dquote, CHR ''b'', CHR ''a'', CHR ''s'', CHR ''e'', dquote]]"
  by (simp add: register_def initial_registry_def Point3D_def isinstance_def encode_as_def
      self_iterencode_def JSONEncoder_iterencode_def json_JSONEncoder_iterencode_def
      self_default_def default_encoder_def JSONEncoder_init_def default_kwargs_def
      encode_basestring_ascii_def)

section \<open>Properties of the encoding functions\<close>

lemma new_encoder_defaults: "all_defaults a \<Longrightarrow> new_encoder CustomEncoder a = Inr default_encoder"
  by (cases a) (simp add: all_defaults_def new_encoder_def JSONEncoder_init_def default_encoder_def
      default_kwargs_def)

lemma encode_sdjson_class:
  "enc_cls self \<noteq> Json_JSONEncoder \<Longrightarrow> \<not> is_str obj \<Longrightarrow>
     self_encode reg depth self obj = Inl (TypeError (UnexpectedKeywordArgument ''iterencode'' ''_one_shot''))"
  by (cases obj; cases "enc_cls self")
     (simp_all add: self_encode_def JSONEncoder_encode_def json_JSONEncoder_encode_def
       self_iterencode_def JSONEncoder_iterencode_def)

lemma enc_cls_init [simp]: "enc_cls (JSONEncoder_init c a) = c"
  by (simp add: JSONEncoder_init_def)

lemma default_attr_init [simp]: "default_attr (JSONEncoder_init c a) = kw_default a"
  by (simp add: JSONEncoder_init_def)

lemma enc_cls_default_encoder [simp]: "enc_cls default_encoder = CustomEncoder"
  by (simp add: default_encoder_def)

lemma default_attr_default_encoder [simp]: "default_attr default_encoder = None"
  by (simp add: default_encoder_def)

text \<open>
  Every call of \<^verbatim>\<open>dumps\<close> on a value that is not a string, with an encoder class of the
  module, ends in the \<^verbatim>\<open>TypeError\<close> of the call \<^verbatim>\<open>self.iterencode(o, _one_shot=True)\<close>.
\<close>

lemma dumps_non_string_raises:
  "\<not> is_str obj \<Longrightarrow> kw_cls a \<noteq> Some Json_JSONEncoder \<Longrightarrow> kw_kw a = [] \<Longrightarrow>
     dumps reg depth obj a = Inl (TypeError (UnexpectedKeywordArgument ''iterencode'' ''_one_shot''))"
  by (cases "kw_cls a")
     (simp_all add: dumps_def dumps_fast_path_def dumps_slow_path_def new_encoder_def
       encode_sdjson_class)

text \<open>
  Claim C5. When every argument of \<^verbatim>\<open>dumps\<close> has its default value, \<^verbatim>\<open>dumps\<close> takes the
  branch that uses the shared \<^verbatim>\<open>_default_encoder\<close>, and that branch returns what the other
  branch, which builds a new \<^verbatim>\<open>_CustomEncoder\<close> from the same arguments, returns: the
  new instance is equal to the shared one.
\<close>

theorem fast_path_equals_slow_path:
  "all_defaults a \<longrightarrow>
     dumps reg depth obj a = dumps_fast_path reg depth obj
     \<and> dumps_fast_path reg depth obj = dumps_slow_path reg depth obj a
     \<and> new_encoder CustomEncoder a = Inr default_encoder"
proof
  assume d: "all_defaults a"
  then have c: "kw_cls a = None" by (simp add: all_defaults_def)
  show "dumps reg depth obj a = dumps_fast_path reg depth obj
     \<and> dumps_fast_path reg depth obj = dumps_slow_path reg depth obj a
     \<and> new_encoder CustomEncoder a = Inr default_encoder"
    using d by (simp add: dumps_def dumps_fast_path_def dumps_slow_path_def c new_encoder_defaults)
qed

theorem fast_path_equals_slow_path_witness:
  "all_defaults default_kwargs
   \<and> dumps initial_registry 3 (PStr ''abc'') default_kwargs = Inr [dquote, CHR ''a'', CHR ''b'', CHR ''c'', dquote]
   \<and> dumps_slow_path initial_registry 3 (PStr ''abc'') default_kwargs
        = Inr [dquote, CHR ''a'', CHR ''b'', CHR ''c'', dquote]"
proof -
  have d: "all_defaults default_kwargs" by (simp add: all_defaults_def default_kwargs_def)
  have f: "dumps_fast_path initial_registry 3 (PStr ''abc'') = Inr [dquote, CHR ''a'', CHR ''b'', CHR ''c'', dquote]"
    by (simp add: dumps_fast_path_def self_encode_def default_encoder_def JSONEncoder_init_def
        default_kwargs_def JSONEncoder_encode_def json_JSONEncoder_encode_def
        encode_basestring_ascii_def)
  show ?thesis
    using fast_path_equals_slow_path [of default_kwargs initial_registry 3 "PStr ''abc''"] d f by simp
qed

text \<open>
  Claim C2 fails on the code, by the defect of \<open>dumps_non_string_raises\<close>. With
  \<^verbatim>\<open>encode_point\<close> registered for \<^verbatim>\<open>Point\<close>, \<^verbatim>\<open>dumps(Point(1, 2))\<close> raises
  \<^verbatim>\<open>TypeError\<close> instead of returning the text of \<^verbatim>\<open>{"x": 1, "y": 2}\<close>, and so does
  \<^verbatim>\<open>dumps\<close> of that dictionary; the walk of the shared encoder, called through
  \<^verbatim>\<open>iterencode\<close>, does yield the chunks of that text, keys in insertion order. With an
  encoder function that returns the string \<^verbatim>\<open>"p"\<close> registered for \<^verbatim>\<open>Point\<close>,
  \<^verbatim>\<open>dumps(Point(1, 2))\<close> raises while \<^verbatim>\<open>dumps("p")\<close> returns text, so the two results
  differ.
\<close>

theorem registered_encoder_not_reached_by_dumps:
  "dumps (snd (register (TUser ''Point'') encode_point initial_registry)) depth (Point 7 1 2) default_kwargs
     = Inl (TypeError (UnexpectedKeywordArgument ''iterencode'' ''_one_shot''))
   \<and> encode_point (Point 7 1 2) = Inr (PDict [(PStr ''x'', PInt 1), (PStr ''y'', PInt 2)])
   \<and> dumps (snd (register (TUser ''Point'') encode_point initial_registry)) depth
        (PDict [(PStr ''x'', PInt 1), (PStr ''y'', PInt 2)]) default_kwargs
     = Inl (TypeError (UnexpectedKeywordArgument ''iterencode'' ''_one_shot''))
   \<and> self_iterencode (snd (register (TUser ''Point'') encode_point initial_registry)) 1
        default_encoder (Point 7 1 2) None
     = Inr [''{'', [dquote, CHR ''x'', dquote], '': '', ''1'', '', '',
            [dquote, CHR ''y'', dquote], '': '', ''2'', ''}'']
   \<and> dumps (snd (register (TUser ''Point'') (encode_as ''p'') initial_registry)) depth (Point 7 1 2) default_kwargs
     = Inl (TypeError (UnexpectedKeywordArgument ''iterencode'' ''_one_shot''))
   \<and> encode_as ''p'' (Point 7 1 2) = Inr (PStr ''p'')
   \<and> dumps (snd (register (TUser ''Point'') (encode_as ''p'') initial_registry)) depth (PStr ''p'') default_kwargs
     = Inr [dquote, CHR ''p'', dquote]"
proof (intro conjI)
  show "dumps (snd (register (TUser ''Point'') encode_point initial_registry)) depth (Point 7 1 2) default_kwargs
     = Inl (TypeError (UnexpectedKeywordArgument ''iterencode'' ''_one_shot''))"
    by (simp add: dumps_non_string_raises Point_def default_kwargs_def)
  show "encode_point (Point 7 1 2) = Inr (PDict [(PStr ''x'', PInt 1), (PStr ''y'', PInt 2)])"
    by (simp add: encode_point_def Point_def)
  show "dumps (snd (register (TUser ''Point'') encode_point initial_registry)) depth
        (PDict [(PStr ''x'', PInt 1), (PStr ''y'', PInt 2)]) default_kwargs
     = Inl (TypeError (UnexpectedKeywordArgument ''iterencode'' ''_one_shot''))"
    by (simp add: dumps_non_string_raises default_kwargs_def)
  show "self_iterencode (snd (register (TUser ''Point'') encode_point initial_registry)) 1
        default_encoder (Point 7 1 2) None
     = Inr [''{'', [dquote, CHR ''x'', dquote], '': '', ''1'', '', '',
            [dquote, CHR ''y'', dquote], '': '', ''2'', ''}'']"
    by (simp add: self_iterencode_def JSONEncoder_iterencode_def json_JSONEncoder_iterencode_def
        default_encoder_def JSONEncoder_init_def default_kwargs_def newline_indent_def
        Point_def self_default_def register_def initial_registry_def isinstance_def
        encode_point_def encode_basestring_ascii_def int_repr_def nat_repr.simps digit_char_def)
  show "dumps (snd (register (TUser ''Point'') (encode_as ''p'') initial_registry)) depth (Point 7 1 2) default_kwargs
     = Inl (TypeError (UnexpectedKeywordArgument ''iterencode'' ''_one_shot''))"
    by (simp add: dumps_non_string_raises Point_def default_kwargs_def)
  show "encode_as ''p'' (Point 7 1 2) = Inr (PStr ''p'')"
    by (simp add: encode_as_def)
  show "dumps (snd (register (TUser ''Point'') (encode_as ''p'') initial_registry)) depth (PStr ''p'') default_kwargs
     = Inr [dquote, CHR ''p'', dquote]"
    by (simp add: dumps_def all_defaults_def default_kwargs_def dumps_fast_path_def self_encode_def
        JSONEncoder_encode_def json_JSONEncoder_encode_def default_encoder_def JSONEncoder_init_def
        encode_basestring_ascii_def)
qed

text \<open>
  Claim C4 fails on the code, by the same defect. With \<^verbatim>\<open>encode_point\<close> registered for
  \<^verbatim>\<open>Point\<close>, \<^verbatim>\<open>dumps(Point(1, 2), cls=JSONEncoder)\<close> raises the \<^verbatim>\<open>TypeError\<close> of the
  call \<^verbatim>\<open>self.iterencode(o, _one_shot=True)\<close>, the one it raises for the list \<^verbatim>\<open>[1]\<close>
  as well, not the error of a value that cannot be serialized. That error is what
  \<^verbatim>\<open>JSONEncoder.default\<close> raises, and what the walk of an encoder of that class raises
  when \<^verbatim>\<open>iterencode\<close> is called directly; \<^verbatim>\<open>dumps\<close> reaches neither.
\<close>

theorem explicit_encoder_class_raises_keyword_error:
  "dumps (snd (register (TUser ''Point'') encode_point initial_registry)) depth (Point 7 1 2)
      (default_kwargs\<lparr>kw_cls := Some JSONEncoder\<rparr>)
     = Inl (TypeError (UnexpectedKeywordArgument ''iterencode'' ''_one_shot''))
   \<and> dumps (snd (register (TUser ''Point'') encode_point initial_registry)) depth (PList [PInt 1])
      (default_kwargs\<lparr>kw_cls := Some JSONEncoder\<rparr>)
     = Inl (TypeError (UnexpectedKeywordArgument ''iterencode'' ''_one_shot''))
   \<and> JSONEncoder_default (Point 7 1 2) = Inl (TypeError (NotJSONSerializable ''Point''))
   \<and> self_iterencode (snd (register (TUser ''Point'') encode_point initial_registry)) depth
        (JSONEncoder_init JSONEncoder (default_kwargs\<lparr>kw_cls := Some JSONEncoder\<rparr>)) (Point 7 1 2) None
     = Inl (TypeError (NotJSONSerializable ''Point''))"
proof (intro conjI)
  show "dumps (snd (register (TUser ''Point'') encode_point initial_registry)) depth (Point 7 1 2)
      (default_kwargs\<lparr>kw_cls := Some JSONEncoder\<rparr>)
     = Inl (TypeError (UnexpectedKeywordArgument ''iterencode'' ''_one_shot''))"
    by (simp add: dumps_non_string_raises Point_def default_kwargs_def)
  show "dumps (snd (register (TUser ''Point'') encode_point initial_registry)) depth (PList [PInt 1])
      (default_kwargs\<lparr>kw_cls := Some JSONEncoder\<rparr>)
     = Inl (TypeError (UnexpectedKeywordArgument ''iterencode'' ''_one_shot''))"
    by (simp add: dumps_non_string_raises default_kwargs_def)
  show "JSONEncoder_default (Point 7 1 2) = Inl (TypeError (NotJSONSerializable ''Point''))"
    by (simp add: JSONEncoder_default_def json_JSONEncoder_default_def Point_def)
  show "self_iterencode (snd (register (TUser ''Point'') encode_point initial_registry)) depth
        (JSONEncoder_init JSONEncoder (default_kwargs\<lparr>kw_cls := Some JSONEncoder\<rparr>)) (Point 7 1 2) None
     = Inl (TypeError (NotJSONSerializable ''Point''))"
    by (simp add: self_iterencode_def JSONEncoder_iterencode_def json_JSONEncoder_iterencode_def
        self_default_def default_kwargs_def JSONEncoder_default_def json_JSONEncoder_default_def
        Point_def)
qed

text \<open>
  Claim C8 fails on the code, by the same defect. With nothing registered,
  \<^verbatim>\<open>dumps(Blob())\<close> raises the \<^verbatim>\<open>TypeError\<close> of the call
  \<^verbatim>\<open>self.iterencode(o, _one_shot=True)\<close>, the one it raises for the number \<^verbatim>\<open>1\<close> as
  well, before any lookup. The lookup of \<^verbatim>\<open>_CustomEncoder.default\<close> itself skips the
  entry of \<^verbatim>\<open>object\<close> and ends in the native error "not JSON serializable", and so
  does the walk of the shared encoder when \<^verbatim>\<open>iterencode\<close> is called directly.
\<close>

theorem unmatched_value_raises_keyword_error:
  "dumps initial_registry depth (Blob 9) default_kwargs
     = Inl (TypeError (UnexpectedKeywordArgument ''iterencode'' ''_one_shot''))
   \<and> dumps initial_registry depth (PInt 1) default_kwargs
     = Inl (TypeError (UnexpectedKeywordArgument ''iterencode'' ''_one_shot''))
   \<and> CustomEncoder_default initial_registry (Blob 9) = Inl (TypeError (NotJSONSerializable ''Blob''))
   \<and> self_iterencode initial_registry depth default_encoder (Blob 9) None
     = Inl (TypeError (NotJSONSerializable ''Blob''))"
proof (intro conjI)
  show "dumps initial_registry depth (Blob 9) default_kwargs
     = Inl (TypeError (UnexpectedKeywordArgument ''iterencode'' ''_one_shot''))"
    by (simp add: dumps_non_string_raises Blob_def default_kwargs_def)
  show "dumps initial_registry depth (PInt 1) default_kwargs
     = Inl (TypeError (UnexpectedKeywordArgument ''iterencode'' ''_one_shot''))"
    by (simp add: dumps_non_string_raises default_kwargs_def)
  show "CustomEncoder_default initial_registry (Blob 9) = Inl (TypeError (NotJSONSerializable ''Blob''))"
    by (simp add: initial_registry_def Blob_def JSONEncoder_default_def json_JSONEncoder_default_def)
  show "self_iterencode initial_registry depth default_encoder (Blob 9) None
     = Inl (TypeError (NotJSONSerializable ''Blob''))"
    by (simp add: self_iterencode_def JSONEncoder_iterencode_def json_JSONEncoder_iterencode_def
        self_default_def initial_registry_def Blob_def JSONEncoder_default_def
        json_JSONEncoder_default_def)
qed

text \<open>
  Claim C10 fails on the code. After \<^verbatim>\<open>encode_point\<close> has been registered for
  \<^verbatim>\<open>Point\<close>, \<^verbatim>\<open>dumps\<close> with default options still raises for a \<^verbatim>\<open>Point\<close>, exactly as
  before the registration: \<^verbatim>\<open>json.JSONEncoder.encode\<close> calls
  \<^verbatim>\<open>self.iterencode(o, _one_shot=True)\<close>, the module's override of \<^verbatim>\<open>iterencode\<close> does not
  take that keyword, and the hook is never reached. The hook of the shared encoder itself
  does read the registry of the moment: called directly, it returns the dictionary of
  \<^verbatim>\<open>encode_point\<close>.
\<close>

theorem fast_path_misses_registration:
  "dumps (snd (register (TUser ''Point'') encode_point initial_registry)) depth (Point 7 1 2) default_kwargs
     = Inl (TypeError (UnexpectedKeywordArgument ''iterencode'' ''_one_shot''))
   \<and> dumps initial_registry depth (Point 7 1 2) default_kwargs
     = Inl (TypeError (UnexpectedKeywordArgument ''iterencode'' ''_one_shot''))
   \<and> self_default (snd (register (TUser ''Point'') encode_point initial_registry)) default_encoder (Point 7 1 2)
     = Inr (PDict [(PStr ''x'', PInt 1), (PStr ''y'', PInt 2)])"
  by (simp add: dumps_def dumps_fast_path_def all_defaults_def default_kwargs_def
      encode_sdjson_class Point_def self_default_def register_def initial_registry_def
      isinstance_def encode_point_def)

text \<open>
  Claim C6 fails on the code, by the same defect. For a number, a list or a dictionary,
  \<^verbatim>\<open>dumps\<close> raises \<^verbatim>\<open>TypeError\<close> instead of returning text, so there is nothing to parse,
  whatever the parser does.
\<close>

theorem round_trip_fails_on_number:
  "round_trip json_loads reg depth (PInt 1)
     = Inl (TypeError (UnexpectedKeywordArgument ''iterencode'' ''_one_shot''))
   \<and> round_trip json_loads reg depth (PList [PInt 1, PStr ''a''])
     = Inl (TypeError (UnexpectedKeywordArgument ''iterencode'' ''_one_shot''))
   \<and> round_trip json_loads reg depth (PDict [(PStr ''a'', PNone)])
     = Inl (TypeError (UnexpectedKeywordArgument ''iterencode'' ''_one_shot''))"
  by (simp add: round_trip_def dumps_def dumps_fast_path_def all_defaults_def default_kwargs_def
      encode_sdjson_class)

text \<open>
  Claim C1 fails on the code. \<^verbatim>\<open>dump\<close> calls \<^verbatim>\<open>json.dumps\<close>, not the module's \<^verbatim>\<open>dumps\<close>.
  For the list \<^verbatim>\<open>[1]\<close> it writes the three characters of \<^verbatim>\<open>[1]\<close> while \<^verbatim>\<open>dumps\<close> raises.
  With \<^verbatim>\<open>encode_point\<close> registered for \<^verbatim>\<open>Point\<close>, \<^verbatim>\<open>dump\<close> of a list that holds a
  \<^verbatim>\<open>Point\<close> raises "not JSON serializable", since \<^verbatim>\<open>json.dumps\<close> knows no registry,
  while the walk of the module's own encoder yields the chunks of the list; and
  \<^verbatim>\<open>dump\<close> of a \<^verbatim>\<open>Point\<close> is routed by \<^verbatim>\<open>singledispatch\<close> to \<^verbatim>\<open>encode_point\<close> itself,
  called with two arguments.
\<close>

theorem dump_differs_from_dumps:
  "dump initial_registry depth (PList [PInt 1]) [] [] default_kwargs = Inr [''['', ''1'', '']'']
   \<and> dumps initial_registry depth (PList [PInt 1]) default_kwargs
       = Inl (TypeError (UnexpectedKeywordArgument ''iterencode'' ''_one_shot''))
   \<and> dump (snd (register (TUser ''Point'') encode_point initial_registry)) depth
        (PList [Point 7 1 2]) [] [] default_kwargs
       = Inl (TypeError (NotJSONSerializable ''Point''))
   \<and> self_iterencode (snd (register (TUser ''Point'') encode_point initial_registry)) 1
        default_encoder (PList [Point 7 1 2]) None
       = Inr [''['', ''{'', [dquote, CHR ''x'', dquote], '': '', ''1'', '', '',
              [dquote, CHR ''y'', dquote], '': '', ''2'', ''}'', '']'']
   \<and> dump (snd (register (TUser ''Point'') encode_point initial_registry)) depth
        (Point 7 1 2) [] [] default_kwargs
       = Inl (TypeError (TakesPositionalArguments ''handler'' 1 2))"
proof (intro conjI)
  show "self_iterencode (snd (register (TUser ''Point'') encode_point initial_registry)) 1
        default_encoder (PList [Point 7 1 2]) None
       = Inr [''['', ''{'', [dquote, CHR ''x'', dquote], '': '', ''1'', '', '',
              [dquote, CHR ''y'', dquote], '': '', ''2'', ''}'', '']'']"
    by (simp add: self_iterencode_def JSONEncoder_iterencode_def json_JSONEncoder_iterencode_def
        default_encoder_def JSONEncoder_init_def default_kwargs_def newline_indent_def
        Point_def self_default_def register_def initial_registry_def isinstance_def
        encode_point_def encode_basestring_ascii_def int_repr_def nat_repr.simps digit_char_def)
  show "dump initial_registry depth (PList [PInt 1]) [] [] default_kwargs = Inr [''['', ''1'', '']'']"
    by (simp add: dump_def dump_function_def json_dumps_def all_defaults_def default_kwargs_def
        initial_registry_def self_encode_def json_JSONEncoder_encode_def self_iterencode_def
        json_JSONEncoder_iterencode_def JSONEncoder_init_def newline_indent_def
        int_repr_def nat_repr.simps digit_char_def)
  show "dumps initial_registry depth (PList [PInt 1]) default_kwargs
       = Inl (TypeError (UnexpectedKeywordArgument ''iterencode'' ''_one_shot''))"
    by (simp add: dumps_def dumps_fast_path_def all_defaults_def default_kwargs_def
        encode_sdjson_class)
  show "dump (snd (register (TUser ''Point'') encode_point initial_registry)) depth
        (PList [Point 7 1 2]) [] [] default_kwargs
       = Inl (TypeError (NotJSONSerializable ''Point''))"
    by (simp add: dump_def dump_function_def json_dumps_def all_defaults_def default_kwargs_def
        initial_registry_def register_def Point_def self_encode_def json_JSONEncoder_encode_def
        self_iterencode_def json_JSONEncoder_iterencode_def JSONEncoder_init_def
        newline_indent_def self_default_def json_JSONEncoder_default_def)
  show "dump (snd (register (TUser ''Point'') encode_point initial_registry)) depth
        (Point 7 1 2) [] [] default_kwargs
       = Inl (TypeError (TakesPositionalArguments ''handler'' 1 2))"
    by (simp add: dump_def initial_registry_def register_def Point_def)
qed

end
